theory Spec2Isabelle
  imports Complex_Main
begin

section \<open>JavaScript values\<close>

text \<open>
  The server is TypeScript on express, zod and nanoid. The store of
  \<^verbatim>\<open>server/storage.ts\<close> and the route handlers of \<^verbatim>\<open>registerRoutes\<close> are embedded
  as functions that take the store and return the store after the call together with
  the result. What a handler reads from its environment is an argument of the model:
  the path parameter (a string), the request body (a JavaScript value), and the values
  that \<^verbatim>\<open>nanoid()\<close> and \<^verbatim>\<open>new Date()\<close> return during the call.

  Strings are lists of 8-bit characters. A JavaScript number is \<open>NaN\<close>, an infinity or
  a finite value; finite values are kept exact (a rational), so the rounding of a
  number to the nearest double is not part of the model.
\<close>

datatype number = NaN | PosInfinity | NegInfinity | Finite rat

text \<open>Strict equality \<^verbatim>\<open>a === b\<close> on numbers: \<open>NaN\<close> equals nothing, itself included.\<close>

definition strict_eq :: "number \<Rightarrow> number \<Rightarrow> bool" where
  "strict_eq a b \<longleftrightarrow> a \<noteq> NaN \<and> a = b"

text \<open>
  A request body as express hands it to a handler (\<^verbatim>\<open>req.body\<close> has type \<^verbatim>\<open>any\<close>).
  A date is its time value in milliseconds; \<open>JDate None\<close> is an invalid date. An
  object is the list of its own properties in insertion order.
\<close>

datatype jsval =
    JUndefined
  | JNull
  | JBool bool
  | JNum number
  | JStr string
  | JDate "int option"
  | JArr "jsval list"
  | JObj "(string \<times> jsval) list"

text \<open>Property read \<^verbatim>\<open>o[k]\<close>: a missing property reads as \<^verbatim>\<open>undefined\<close>.\<close>

definition getProp :: "(string \<times> jsval) list \<Rightarrow> string \<Rightarrow> jsval" where
  "getProp props k = (case map_of props k of None \<Rightarrow> JUndefined | Some v \<Rightarrow> v)"

text \<open>
  Property write: an existing key keeps its place and takes the new value, a new key
  is added at the end.
\<close>

fun setProp :: "string \<Rightarrow> jsval \<Rightarrow> (string \<times> jsval) list \<Rightarrow> (string \<times> jsval) list" where
  "setProp k v [] = [(k, v)]"
| "setProp k v (p # ps) = (if fst p = k then (k, v) # ps else p # setProp k v ps)"

text \<open>The decimal index keys \<^verbatim>\<open>"0"\<close>, \<^verbatim>\<open>"1"\<close>, ... of arrays and strings.\<close>

function indexKey :: "nat \<Rightarrow> string" where
  "indexKey n =
     (if n < 10 then [''0123456789'' ! n]
      else indexKey (n div 10) @ [''0123456789'' ! (n mod 10)])"
  by pat_completeness auto
termination
  by (relation "measure id") auto

declare indexKey.simps [simp del]

text \<open>
  The own enumerable properties that an object spread \<^verbatim>\<open>{...item}\<close> copies: those of
  an object, the indexed elements of an array, the indexed characters of a string,
  and nothing for every other value.
\<close>

fun ownProps :: "jsval \<Rightarrow> (string \<times> jsval) list" where
  "ownProps (JObj props) = props"
| "ownProps (JArr xs) = zip (map indexKey [0..<length xs]) xs"
| "ownProps (JStr s) = zip (map indexKey [0..<length s]) (map (\<lambda>c. JStr [c]) s)"
| "ownProps _ = []"

subsection \<open>parseInt\<close>

text \<open>
  \<^verbatim>\<open>parseInt(string)\<close> with no radix, as ECMAScript defines it: leading white space is
  skipped, then comes an optional sign, then an optional \<^verbatim>\<open>0x\<close> that selects radix 16
  (radix 10 otherwise), then the longest run of digits of that radix. No digit at all
  gives \<open>NaN\<close>; what follows the digits is ignored. White space is the tab, the line
  feed, the vertical tab, the form feed, the carriage return and the space.
\<close>

definition isWhiteSpace :: "char \<Rightarrow> bool" where
  "isWhiteSpace c \<longleftrightarrow> (of_char c :: nat) \<in> {9, 10, 11, 12, 13, 32}"

definition digitValue :: "char \<Rightarrow> nat option" where
  "digitValue c =
     (let n = (of_char c :: nat) in
      if 48 \<le> n \<and> n \<le> 57 then Some (n - 48)
      else if 97 \<le> n \<and> n \<le> 122 then Some (n - 87)
      else if 65 \<le> n \<and> n \<le> 90 then Some (n - 55)
      else None)"

definition isDigitOf :: "nat \<Rightarrow> char \<Rightarrow> bool" where
  "isDigitOf R c = (case digitValue c of None \<Rightarrow> False | Some d \<Rightarrow> d < R)"

definition mathInt :: "nat \<Rightarrow> string \<Rightarrow> nat" where
  "mathInt R Z =
     foldl (\<lambda>acc c. case digitValue c of None \<Rightarrow> acc | Some d \<Rightarrow> acc * R + d) 0 Z"

definition stripSign :: "string \<Rightarrow> int \<times> string" where
  "stripSign S =
     (case S of
        [] \<Rightarrow> (1, S)
      | c # cs \<Rightarrow>
          if c = CHR ''-'' then (- 1, cs)
          else if c = CHR ''+'' then (1, cs)
          else (1, S))"

definition stripPrefix :: "string \<Rightarrow> nat \<times> string" where
  "stripPrefix S =
     (case S of
        a # b # cs \<Rightarrow>
          if a = CHR ''0'' \<and> (b = CHR ''x'' \<or> b = CHR ''X'') then (16, cs) else (10, S)
      | _ \<Rightarrow> (10, S))"

definition parseInt :: "string \<Rightarrow> number" where
  "parseInt inputString =
     (let (sign, S) = stripSign (dropWhile isWhiteSpace inputString);
          (R, S') = stripPrefix S;
          Z = takeWhile (isDigitOf R) S'
      in if Z = [] then NaN else Finite (of_int (sign * int (mathInt R Z))))"

section \<open>The data model\<close>

text \<open>
  The entity types are those inferred from \<^verbatim>\<open>UserSchema\<close>, \<^verbatim>\<open>ReceiptSchema\<close> and
  \<^verbatim>\<open>ReceiptItemSchema\<close> in the shared schema whose identifiers are numbers (the one
  the storage module type-checks against; an older copy of the schema declares them as
  strings). A timestamp is a time value in milliseconds. Each entity comes with the type
  of its creation payload
  (\<^verbatim>\<open>Omit<T, 'id' | 'createdAt' | 'updatedAt'>\<close>).
\<close>

record UserData =
  ud_name :: string
  ud_email :: string

record User =
  u_id :: number
  u_name :: string
  u_email :: string
  u_createdAt :: int
  u_updatedAt :: int

record ReceiptData =
  rd_userId :: "number option"
  rd_storeName :: string
  rd_date :: int
  rd_total :: number

record Receipt =
  r_id :: number
  r_userId :: "number option"
  r_storeName :: string
  r_date :: int
  r_total :: number
  r_createdAt :: int
  r_updatedAt :: int

record ReceiptItemData =
  id_receiptId :: number
  id_name :: string
  id_price :: number
  id_quantity :: number

record ReceiptItem =
  i_id :: number
  i_receiptId :: number
  i_name :: string
  i_price :: number
  i_quantity :: number
  i_createdAt :: int
  i_updatedAt :: int

section \<open>The in-memory store\<close>

text \<open>
  The three module-level arrays \<^verbatim>\<open>_users\<close>, \<^verbatim>\<open>_receipts\<close> and \<^verbatim>\<open>_receiptItems\<close>.
  The file holds the storage module twice. The copies differ in the order of the object
  literal of the create functions, \<^verbatim>\<open>{...data, id, createdAt, updatedAt}\<close> in one and
  \<^verbatim>\<open>{id, ...data, createdAt, updatedAt}\<close> in the other; a payload has none of the
  three assigned fields, so both build the record below.
\<close>

record store =
  users :: "User list"
  receipts :: "Receipt list"
  receiptItems :: "ReceiptItem list"

definition empty_store :: store where
  "empty_store = \<lparr>users = [], receipts = [], receiptItems = []\<rparr>"

text \<open>
  What one create call draws from its environment: the string that \<^verbatim>\<open>nanoid()\<close>
  returns and the times of the two \<^verbatim>\<open>new Date()\<close> calls.
\<close>

record stamp =
  nanoid :: string
  created :: int
  updated :: int

definition createUser :: "store \<Rightarrow> UserData \<Rightarrow> stamp \<Rightarrow> store \<times> User" where
  "createUser st data s =
     (let user = \<lparr>u_id = parseInt (nanoid s), u_name = ud_name data, u_email = ud_email data,
                  u_createdAt = created s, u_updatedAt = updated s\<rparr>
      in (st\<lparr>users := users st @ [user]\<rparr>, user))"

definition getUserById :: "store \<Rightarrow> number \<Rightarrow> User option" where
  "getUserById st ident = find (\<lambda>user. strict_eq (u_id user) ident) (users st)"

definition getUserByEmail :: "store \<Rightarrow> string \<Rightarrow> User option" where
  "getUserByEmail st email = find (\<lambda>user. u_email user = email) (users st)"

definition createReceipt :: "store \<Rightarrow> ReceiptData \<Rightarrow> stamp \<Rightarrow> store \<times> Receipt" where
  "createReceipt st data s =
     (let receipt = \<lparr>r_id = parseInt (nanoid s), r_userId = rd_userId data,
                     r_storeName = rd_storeName data, r_date = rd_date data,
                     r_total = rd_total data,
                     r_createdAt = created s, r_updatedAt = updated s\<rparr>
      in (st\<lparr>receipts := receipts st @ [receipt]\<rparr>, receipt))"

definition getReceiptById :: "store \<Rightarrow> number \<Rightarrow> Receipt option" where
  "getReceiptById st ident = find (\<lambda>receipt. strict_eq (r_id receipt) ident) (receipts st)"

definition getAllReceipts :: "store \<Rightarrow> Receipt list" where
  "getAllReceipts st = receipts st"

definition getReceiptsByUserId :: "store \<Rightarrow> number \<Rightarrow> Receipt list" where
  "getReceiptsByUserId st userId =
     filter (\<lambda>receipt. case r_userId receipt of None \<Rightarrow> False | Some u \<Rightarrow> strict_eq u userId)
       (receipts st)"

definition createReceiptItem :: "store \<Rightarrow> ReceiptItemData \<Rightarrow> stamp \<Rightarrow> store \<times> ReceiptItem" where
  "createReceiptItem st data s =
     (let item = \<lparr>i_id = parseInt (nanoid s), i_receiptId = id_receiptId data,
                  i_name = id_name data, i_price = id_price data,
                  i_quantity = id_quantity data,
                  i_createdAt = created s, i_updatedAt = updated s\<rparr>
      in (st\<lparr>receiptItems := receiptItems st @ [item]\<rparr>, item))"

definition getReceiptItemsByReceiptId :: "store \<Rightarrow> number \<Rightarrow> ReceiptItem list" where
  "getReceiptItemsByReceiptId st receiptId =
     filter (\<lambda>item. strict_eq (i_receiptId item) receiptId) (receiptItems st)"

text \<open>\<^verbatim>\<open>Array.prototype.findIndex\<close>: the first index that satisfies the test, or \<open>-1\<close>.\<close>

fun findIndex :: "('a \<Rightarrow> bool) \<Rightarrow> 'a list \<Rightarrow> int" where
  "findIndex P [] = - 1"
| "findIndex P (x # xs) =
     (if P x then 0 else (let i = findIndex P xs in if i = - 1 then - 1 else i + 1))"

text \<open>\<^verbatim>\<open>xs.splice(index, 1)\<close> for an index inside the array.\<close>

definition splice1 :: "nat \<Rightarrow> 'a list \<Rightarrow> 'a list" where
  "splice1 i xs = take i xs @ drop (Suc i) xs"

definition deleteReceiptItem :: "store \<Rightarrow> number \<Rightarrow> store" where
  "deleteReceiptItem st ident =
     (let index = findIndex (\<lambda>item. strict_eq (i_id item) ident) (receiptItems st)
      in if index \<noteq> - 1 then st\<lparr>receiptItems := splice1 (nat index) (receiptItems st)\<rparr>
         else st)"

section \<open>Payload validation\<close>

text \<open>
  \<^verbatim>\<open>schema.parse(value)\<close> either returns the typed value or throws a \<^verbatim>\<open>ZodError\<close>
  that carries the issues found, each with the path of the field and a message.
  Every other exception is an \<open>Error\<close> with its message.
\<close>

record issue =
  path :: "string list"
  message :: string

datatype error = ZodError "issue list" | Error string

fun parsedType :: "jsval \<Rightarrow> string" where
  "parsedType JUndefined = ''undefined''"
| "parsedType JNull = ''null''"
| "parsedType (JBool _) = ''boolean''"
| "parsedType (JNum n) = (if n = NaN then ''nan'' else ''number'')"
| "parsedType (JStr _) = ''string''"
| "parsedType (JDate _) = ''date''"
| "parsedType (JArr _) = ''array''"
| "parsedType (JObj _) = ''object''"

definition invalid_type :: "string list \<Rightarrow> string \<Rightarrow> jsval \<Rightarrow> issue" where
  "invalid_type p expected v =
     \<lparr>path = p,
      message = (if v = JUndefined then ''Required''
                 else ''Expected '' @ expected @ '', received '' @ parsedType v)\<rparr>"

definition z_string :: "string list \<Rightarrow> jsval \<Rightarrow> issue list + string" where
  "z_string p v = (case v of JStr s \<Rightarrow> Inr s | _ \<Rightarrow> Inl [invalid_type p ''string'' v])"

definition z_number :: "string list \<Rightarrow> jsval \<Rightarrow> issue list + number" where
  "z_number p v =
     (case v of
        JNum n \<Rightarrow> if n = NaN then Inl [invalid_type p ''number'' v] else Inr n
      | _ \<Rightarrow> Inl [invalid_type p ''number'' v])"

definition z_date :: "string list \<Rightarrow> jsval \<Rightarrow> issue list + int" where
  "z_date p v =
     (case v of
        JDate (Some t) \<Rightarrow> Inr t
      | JDate None \<Rightarrow> Inl [\<lparr>path = p, message = ''Invalid date''\<rparr>]
      | _ \<Rightarrow> Inl [invalid_type p ''date'' v])"

definition z_number_nullable :: "string list \<Rightarrow> jsval \<Rightarrow> issue list + number option" where
  "z_number_nullable p v =
     (case v of
        JNull \<Rightarrow> Inr None
      | _ \<Rightarrow> (case z_number p v of Inl is \<Rightarrow> Inl is | Inr n \<Rightarrow> Inr (Some n)))"

text \<open>
  \<^verbatim>\<open>z.string().email()\<close>: a string that passes the library's email test, which is a
  parameter of the model.
\<close>

definition z_email :: "(string \<Rightarrow> bool) \<Rightarrow> string list \<Rightarrow> jsval \<Rightarrow> issue list + string" where
  "z_email email_ok p v =
     (case z_string p v of
        Inl is \<Rightarrow> Inl is
      | Inr s \<Rightarrow> if email_ok s then Inr s else Inl [\<lparr>path = p, message = ''Invalid email''\<rparr>])"

definition issues :: "issue list + 'a \<Rightarrow> issue list" where
  "issues r = (case r of Inl is \<Rightarrow> is | Inr _ \<Rightarrow> [])"

text \<open>
  The three schemas with \<^verbatim>\<open>id\<close>, \<^verbatim>\<open>createdAt\<close> and \<^verbatim>\<open>updatedAt\<close> omitted. An object
  schema checks every field it declares, collects the issues of all of them, and
  drops the properties it does not declare.
\<close>

definition UserSchema_omit :: "(string \<Rightarrow> bool) \<Rightarrow> jsval \<Rightarrow> error + UserData" where
  "UserSchema_omit email_ok v =
     (case v of
        JObj props \<Rightarrow>
          (let n = z_string [''name''] (getProp props ''name'');
               e = z_email email_ok [''email''] (getProp props ''email'')
           in case (n, e) of
                (Inr n', Inr e') \<Rightarrow> Inr \<lparr>ud_name = n', ud_email = e'\<rparr>
              | _ \<Rightarrow> Inl (ZodError (issues n @ issues e)))
      | _ \<Rightarrow> Inl (ZodError [invalid_type [] ''object'' v]))"

definition ReceiptSchema_omit :: "jsval \<Rightarrow> error + ReceiptData" where
  "ReceiptSchema_omit v =
     (case v of
        JObj props \<Rightarrow>
          (let u = z_number_nullable [''userId''] (getProp props ''userId'');
               s = z_string [''storeName''] (getProp props ''storeName'');
               d = z_date [''date''] (getProp props ''date'');
               t = z_number [''total''] (getProp props ''total'')
           in case (u, s, d, t) of
                (Inr u', Inr s', Inr d', Inr t') \<Rightarrow>
                  Inr \<lparr>rd_userId = u', rd_storeName = s', rd_date = d', rd_total = t'\<rparr>
              | _ \<Rightarrow> Inl (ZodError (issues u @ issues s @ issues d @ issues t)))
      | _ \<Rightarrow> Inl (ZodError [invalid_type [] ''object'' v]))"

definition ReceiptItemSchema_omit :: "jsval \<Rightarrow> error + ReceiptItemData" where
  "ReceiptItemSchema_omit v =
     (case v of
        JObj props \<Rightarrow>
          (let r = z_number [''receiptId''] (getProp props ''receiptId'');
               n = z_string [''name''] (getProp props ''name'');
               p = z_number [''price''] (getProp props ''price'');
               q = z_number [''quantity''] (getProp props ''quantity'')
           in case (r, n, p, q) of
                (Inr r', Inr n', Inr p', Inr q') \<Rightarrow>
                  Inr \<lparr>id_receiptId = r', id_name = n', id_price = p', id_quantity = q'\<rparr>
              | _ \<Rightarrow> Inl (ZodError (issues r @ issues n @ issues p @ issues q)))
      | _ \<Rightarrow> Inl (ZodError [invalid_type [] ''object'' v]))"

text \<open>
  \<^verbatim>\<open>fromZodError(error).message\<close>: the issues joined by \<^verbatim>\<open>"; "\<close> behind a fixed
  prefix, each as its message followed by the path of its field.
\<close>

fun joinWith :: "string \<Rightarrow> string list \<Rightarrow> string" where
  "joinWith sep [] = []"
| "joinWith sep [x] = x"
| "joinWith sep (x # y # ys) = x @ sep @ joinWith sep (y # ys)"

definition issueText :: "issue \<Rightarrow> string" where
  "issueText i =
     (if path i = [] then message i
      else message i @ '' at \"'' @ joinWith ''.'' (path i) @ ''\"'')"

definition fromZodError :: "issue list \<Rightarrow> string" where
  "fromZodError is = ''Validation error: '' @ joinWith ''; '' (map issueText is)"

section \<open>The route handlers\<close>

record ProductInfo =
  name :: string
  price :: string

text \<open>
  A response is its status code and its JSON body. \<^verbatim>\<open>res.json(x)\<close> without a status
  answers 200. The body keeps the value that is serialised.
\<close>

datatype body =
    NoBody
  | MessageJson string
  | ErrorJson string
  | UserJson User
  | ReceiptJson Receipt
  | ReceiptsJson "Receipt list"
  | ItemJson ReceiptItem
  | ItemsJson "ReceiptItem list"
  | ProductJson ProductInfo

record response =
  status :: nat
  body :: body

text \<open>\<^verbatim>\<open>GET /api/receipts/:id\<close>\<close>

definition get_api_receipts_id :: "store \<Rightarrow> string \<Rightarrow> store \<times> response" where
  "get_api_receipts_id st idParam =
     (let ident = parseInt idParam in
      case getReceiptById st ident of
        None \<Rightarrow> (st, \<lparr>status = 404, body = MessageJson ''Receipt not found''\<rparr>)
      | Some receipt \<Rightarrow> (st, \<lparr>status = 200, body = ReceiptJson receipt\<rparr>))"

text \<open>\<^verbatim>\<open>POST /api/receipts\<close>\<close>

definition post_api_receipts :: "store \<Rightarrow> jsval \<Rightarrow> stamp \<Rightarrow> store \<times> response" where
  "post_api_receipts st reqBody s =
     (case ReceiptSchema_omit reqBody of
        Inr receiptData \<Rightarrow>
          (let (st', receipt) = createReceipt st receiptData s
           in (st', \<lparr>status = 201, body = ReceiptJson receipt\<rparr>))
      | Inl (ZodError is) \<Rightarrow> (st, \<lparr>status = 400, body = MessageJson (fromZodError is)\<rparr>)
      | Inl (Error _) \<Rightarrow> (st, \<lparr>status = 500, body = MessageJson ''Failed to create receipt''\<rparr>))"

text \<open>
  \<^verbatim>\<open>POST /api/receipts/:receiptId/items\<close>. The loop validates and stores one item after
  the other; a validation error leaves the loop with the items stored so far still in
  the store. The \<open>n\<close>-th create call of the request draws \<open>stamps n\<close>.
\<close>

fun create_items ::
  "number \<Rightarrow> (nat \<Rightarrow> stamp) \<Rightarrow> nat \<Rightarrow> store \<Rightarrow> ReceiptItem list \<Rightarrow> jsval list
     \<Rightarrow> store \<times> (error + ReceiptItem list)" where
  "create_items receiptId stamps n st createdItems [] = (st, Inr createdItems)"
| "create_items receiptId stamps n st createdItems (item # rest) =
     (case ReceiptItemSchema_omit (JObj (setProp ''receiptId'' (JNum receiptId) (ownProps item))) of
        Inl e \<Rightarrow> (st, Inl e)
      | Inr itemData \<Rightarrow>
          (let (st', createdItem) = createReceiptItem st itemData (stamps n)
           in create_items receiptId stamps (Suc n) st' (createdItems @ [createdItem]) rest))"

definition post_api_receipts_items ::
  "store \<Rightarrow> string \<Rightarrow> jsval \<Rightarrow> (nat \<Rightarrow> stamp) \<Rightarrow> store \<times> response" where
  "post_api_receipts_items st receiptIdParam reqBody stamps =
     (let receiptId = parseInt receiptIdParam in
      case getReceiptById st receiptId of
        None \<Rightarrow> (st, \<lparr>status = 404, body = MessageJson ''Receipt not found''\<rparr>)
      | Some receipt \<Rightarrow>
          (let items = (case reqBody of JArr xs \<Rightarrow> xs | _ \<Rightarrow> [reqBody]) in
           case create_items receiptId stamps 0 st [] items of
             (st', Inr createdItems) \<Rightarrow> (st', \<lparr>status = 201, body = ItemsJson createdItems\<rparr>)
           | (st', Inl (ZodError is)) \<Rightarrow>
               (st', \<lparr>status = 400, body = MessageJson (fromZodError is)\<rparr>)
           | (st', Inl (Error _)) \<Rightarrow>
               (st', \<lparr>status = 500, body = MessageJson ''Failed to create receipt items''\<rparr>)))"

text \<open>\<^verbatim>\<open>POST /api/users\<close>\<close>

definition post_api_users ::
  "(string \<Rightarrow> bool) \<Rightarrow> store \<Rightarrow> jsval \<Rightarrow> stamp \<Rightarrow> store \<times> response" where
  "post_api_users email_ok st reqBody s =
     (case UserSchema_omit email_ok reqBody of
        Inr userData \<Rightarrow>
          (let (st', user) = createUser st userData s
           in (st', \<lparr>status = 200, body = UserJson user\<rparr>))
      | Inl (ZodError is) \<Rightarrow> (st, \<lparr>status = 400, body = ErrorJson (fromZodError is)\<rparr>)
      | Inl (Error _) \<Rightarrow> (st, \<lparr>status = 500, body = ErrorJson ''Internal server error''\<rparr>))"

text \<open>\<^verbatim>\<open>POST /api/receipt-items\<close>\<close>

definition post_api_receipt_items :: "store \<Rightarrow> jsval \<Rightarrow> stamp \<Rightarrow> store \<times> response" where
  "post_api_receipt_items st reqBody s =
     (case ReceiptItemSchema_omit reqBody of
        Inr itemData \<Rightarrow>
          (let (st', item) = createReceiptItem st itemData s
           in (st', \<lparr>status = 200, body = ItemJson item\<rparr>))
      | Inl (ZodError is) \<Rightarrow> (st, \<lparr>status = 400, body = ErrorJson (fromZodError is)\<rparr>)
      | Inl (Error _) \<Rightarrow> (st, \<lparr>status = 500, body = ErrorJson ''Internal server error''\<rparr>))"

text \<open>\<^verbatim>\<open>GET /api/receipts/:receiptId/items\<close>\<close>

definition get_api_receipts_items :: "store \<Rightarrow> string \<Rightarrow> store \<times> response" where
  "get_api_receipts_items st receiptIdParam =
     (let receiptId = parseInt receiptIdParam
      in (st, \<lparr>status = 200, body = ItemsJson (getReceiptItemsByReceiptId st receiptId)\<rparr>))"

text \<open>\<^verbatim>\<open>DELETE /api/receipt-items/:id\<close>\<close>

definition delete_api_receipt_items_id :: "store \<Rightarrow> string \<Rightarrow> store \<times> response" where
  "delete_api_receipt_items_id st idParam =
     (let ident = parseInt idParam
      in (deleteReceiptItem st ident, \<lparr>status = 204, body = NoBody\<rparr>))"

section \<open>The product helper\<close>

text \<open>\<^verbatim>\<open>s.split(d)\<close> for a one-character separator: the result is never empty.\<close>

fun splitOn :: "char \<Rightarrow> string \<Rightarrow> string list" where
  "splitOn d [] = [[]]"
| "splitOn d (c # cs) =
     (if c = d then [] # splitOn d cs
      else (case splitOn d cs of [] \<Rightarrow> [[c]] | p # ps \<Rightarrow> (c # p) # ps))"

definition isAlpha :: "char \<Rightarrow> bool" where
  "isAlpha c \<longleftrightarrow>
     (let n = (of_char c :: nat) in (97 \<le> n \<and> n \<le> 122) \<or> (65 \<le> n \<and> n \<le> 90))"

definition isDigit :: "char \<Rightarrow> bool" where
  "isDigit c \<longleftrightarrow> (let n = (of_char c :: nat) in 48 \<le> n \<and> n \<le> 57)"

text \<open>The class \<^verbatim>\<open>\w\<close> of a regular expression: letters, digits and the underscore.\<close>

definition isWordChar :: "char \<Rightarrow> bool" where
  "isWordChar c \<longleftrightarrow> isAlpha c \<or> isDigit c \<or> c = CHR ''_''"

text \<open>\<^verbatim>\<open>toUpperCase\<close> on one character of the class \<^verbatim>\<open>\w\<close>.\<close>

definition toUpperCase :: "char \<Rightarrow> char" where
  "toUpperCase c =
     (let n = (of_char c :: nat) in if 97 \<le> n \<and> n \<le> 122 then char_of (n - 32) else c)"

text \<open>\<^verbatim>\<open>.replace(/-/g, ' ')\<close>\<close>

definition replaceHyphens :: "string \<Rightarrow> string" where
  "replaceHyphens s = map (\<lambda>c. if c = CHR ''-'' then CHR '' '' else c) s"

text \<open>
  \<^verbatim>\<open>.replace(/\b\w/g, l => l.toUpperCase())\<close>: the pattern matches a word character
  that stands at a word boundary, that is one whose predecessor in the subject is not
  a word character (or that is the first character). The flag says whether the
  character before the rest of the subject is a word character.
\<close>

fun upperAtBoundary :: "bool \<Rightarrow> string \<Rightarrow> string" where
  "upperAtBoundary prevWord [] = []"
| "upperAtBoundary prevWord (c # cs) =
     (if isWordChar c \<and> \<not> prevWord then toUpperCase c else c)
       # upperAtBoundary (isWordChar c) cs"

text \<open>
  \<^verbatim>\<open>parseProductFromUrl\<close>. The class \<^verbatim>\<open>URL\<close> is the platform's: \<open>pathnameOf url\<close> is
  the \<^verbatim>\<open>pathname\<close> of \<^verbatim>\<open>new URL(url)\<close>, or \<open>None\<close> where the constructor throws.
  Every exception inside the \<^verbatim>\<open>try\<close> block is rethrown as the same error.
\<close>

definition parseProductFromUrl :: "(string \<Rightarrow> string option) \<Rightarrow> string \<Rightarrow> error + ProductInfo" where
  "parseProductFromUrl pathnameOf url =
     (case pathnameOf url of
        None \<Rightarrow> Inl (Error ''Failed to parse product URL'')
      | Some pathname \<Rightarrow>
          (let pathParts = splitOn CHR ''/'' pathname in
           case pathParts of
             [] \<Rightarrow> Inl (Error ''Failed to parse product URL'')
           | _ # _ \<Rightarrow>
               (let lastPart = last pathParts;
                    productName = upperAtBoundary False (replaceHyphens lastPart)
                in Inr \<lparr>name = productName, price = ''0.00''\<rparr>)))"

text \<open>
  A model of the \<^verbatim>\<open>URL\<close> class for the strings of the form
  \<^verbatim>\<open>scheme://authority/path?query#fragment\<close>: the path is what stands between the
  authority and the query or fragment, and \<^verbatim>\<open>/\<close> when nothing stands there. Every
  other string counts as invalid; dot segments and percent-encoding are left as they
  are.
\<close>

definition urlPathname :: "string \<Rightarrow> string option" where
  "urlPathname url =
     (let scheme = takeWhile (\<lambda>c. c \<noteq> CHR '':'') url;
          rest = dropWhile (\<lambda>c. c \<noteq> CHR '':'') url
      in case rest of
           _ # s1 # s2 # after \<Rightarrow>
             (let inAuthority = (\<lambda>c. c \<noteq> CHR ''/'' \<and> c \<noteq> CHR ''?'' \<and> c \<noteq> CHR ''#'');
                  authority = takeWhile inAuthority after;
                  p = takeWhile (\<lambda>c. c \<noteq> CHR ''?'' \<and> c \<noteq> CHR ''#'') (dropWhile inAuthority after)
              in if scheme \<noteq> [] \<and> list_all (\<lambda>c. isAlpha c \<or> isDigit c) scheme
                    \<and> s1 = CHR ''/'' \<and> s2 = CHR ''/'' \<and> authority \<noteq> []
                 then Some (if p = [] then ''/'' else p)
                 else None)
         | _ \<Rightarrow> None)"

section \<open>The email test\<close>

text \<open>
  A model of the library's email test, after the pattern that zod 3 uses: a local
  part of letters, digits and \<^verbatim>\<open>_'+-.\<close> that does not start with a dot and ends in a
  letter, a digit or one of \<^verbatim>\<open>_+-\<close>, then \<^verbatim>\<open>@\<close>, then one or more labels (a letter or
  digit, then letters, digits and hyphens), each followed by a dot, then a top-level
  name of two letters or more; no two dots in a row anywhere.
\<close>

definition emailLocalChar :: "char \<Rightarrow> bool" where
  "emailLocalChar c \<longleftrightarrow>
     isAlpha c \<or> isDigit c \<or> c = CHR ''_'' \<or> (of_char c :: nat) = 39 \<or> c = CHR ''+''
       \<or> c = CHR ''-'' \<or> c = CHR ''.''"

definition emailLocalEnd :: "char \<Rightarrow> bool" where
  "emailLocalEnd c \<longleftrightarrow> isAlpha c \<or> isDigit c \<or> c = CHR ''_'' \<or> c = CHR ''+'' \<or> c = CHR ''-''"

fun hasDotDot :: "string \<Rightarrow> bool" where
  "hasDotDot (a # b # cs) = ((a = CHR ''.'' \<and> b = CHR ''.'') \<or> hasDotDot (b # cs))"
| "hasDotDot _ = False"

definition emailLabel :: "string \<Rightarrow> bool" where
  "emailLabel l =
     (case l of
        [] \<Rightarrow> False
      | c # cs \<Rightarrow> (isAlpha c \<or> isDigit c) \<and> list_all (\<lambda>x. isAlpha x \<or> isDigit x \<or> x = CHR ''-'') cs)"

definition emailDomain :: "string \<Rightarrow> bool" where
  "emailDomain d =
     (case rev (splitOn CHR ''.'' d) of
        [] \<Rightarrow> False
      | tld # labels \<Rightarrow>
          labels \<noteq> [] \<and> list_all emailLabel labels \<and> 2 \<le> length tld \<and> list_all isAlpha tld)"

definition zod_email :: "string \<Rightarrow> bool" where
  "zod_email s =
     (let localPart = takeWhile (\<lambda>c. c \<noteq> CHR ''@'') s;
          rest = dropWhile (\<lambda>c. c \<noteq> CHR ''@'') s
      in case rest of
           [] \<Rightarrow> False
         | _ # domain \<Rightarrow>
             (case rev localPart of
                [] \<Rightarrow> False
              | l # _ \<Rightarrow>
                  emailLocalEnd l \<and> list_all emailLocalChar localPart
                    \<and> (case s of [] \<Rightarrow> True | c # _ \<Rightarrow> c \<noteq> CHR ''.'')
                    \<and> \<not> hasDotDot s \<and> emailDomain domain))"

section \<open>The properties in the words of the specification\<close>

text \<open>
  A receipt matches an identifier when the lookup's test \<^verbatim>\<open>receipt.id === id\<close> holds.
\<close>

definition no_receipt_with :: "store \<Rightarrow> number \<Rightarrow> bool" where
  "no_receipt_with st ident \<longleftrightarrow> list_all (\<lambda>r. \<not> strict_eq (r_id r) ident) (receipts st)"

definition isString :: "jsval \<Rightarrow> bool" where
  "isString v = (case v of JStr _ \<Rightarrow> True | _ \<Rightarrow> False)"

definition isNumber :: "jsval \<Rightarrow> bool" where
  "isNumber v = (case v of JNum n \<Rightarrow> n \<noteq> NaN | _ \<Rightarrow> False)"

text \<open>
  A valid item payload for the items route of a receipt: an object with a string
  name and a numeric price and quantity. Its own \<^verbatim>\<open>receiptId\<close>, present or not and
  of whatever type, plays no part.
\<close>

definition valid_item_payload :: "jsval \<Rightarrow> bool" where
  "valid_item_payload item =
     (case item of
        JObj props \<Rightarrow>
          isString (getProp props ''name'') \<and> isNumber (getProp props ''price'')
            \<and> isNumber (getProp props ''quantity'')
      | _ \<Rightarrow> False)"

text \<open>
  The values that a JSON request body can hold: null, booleans, numbers (never \<open>NaN\<close>),
  strings, arrays and objects of such values. A JSON text has no form for
  \<^verbatim>\<open>undefined\<close> or for a \<^verbatim>\<open>Date\<close> instance; a point in time travels as a string or as a
  number.
\<close>

fun is_json :: "jsval \<Rightarrow> bool" where
  "is_json JUndefined = False"
| "is_json JNull = True"
| "is_json (JBool _) = True"
| "is_json (JNum n) = (n \<noteq> NaN)"
| "is_json (JStr _) = True"
| "is_json (JDate _) = False"
| "is_json (JArr xs) = list_all is_json xs"
| "is_json (JObj props) = list_all (\<lambda>p. is_json (snd p)) props"

text \<open>
  A valid receipt payload: an object with a numeric or null user reference, a string
  store name, a valid date and a numeric total.
\<close>

definition valid_receipt_payload :: "jsval \<Rightarrow> bool" where
  "valid_receipt_payload v =
     (case v of
        JObj props \<Rightarrow>
          (getProp props ''userId'' = JNull \<or> isNumber (getProp props ''userId''))
            \<and> isString (getProp props ''storeName'')
            \<and> (case getProp props ''date'' of JDate (Some _) \<Rightarrow> True | _ \<Rightarrow> False)
            \<and> isNumber (getProp props ''total'')
      | _ \<Rightarrow> False)"


text \<open>
  The label of a path segment: a hyphen becomes a space, the first character of each
  word becomes its capital, a word being a maximal run of letters, digits and
  underscores, and every other character stays.
\<close>

definition label_of_segment :: "string \<Rightarrow> string" where
  "label_of_segment seg =
     map (\<lambda>i. let c = seg ! i in
               if c = CHR ''-'' then CHR '' ''
               else if isWordChar c \<and> (i = 0 \<or> \<not> isWordChar (seg ! (i - 1))) then toUpperCase c
               else c)
       [0..<length seg]"

section \<open>Sample data\<close>

definition sample_receipt :: Receipt where
  "sample_receipt =
     \<lparr>r_id = Finite 7, r_userId = None, r_storeName = ''Walmart'', r_date = 1700000000000,
      r_total = Finite 42, r_createdAt = 1700000000123, r_updatedAt = 1700000000123\<rparr>"

definition sample_store :: store where
  "sample_store = \<lparr>users = [], receipts = [sample_receipt], receiptItems = []\<rparr>"

definition sample_stamp :: stamp where
  "sample_stamp =
     \<lparr>nanoid = ''V1StGXR8_Z5jdHi6B-myT'', created = 1700000000500, updated = 1700000000501\<rparr>"

definition sample_receipt_payload :: jsval where
  "sample_receipt_payload =
     JObj [(''userId'', JNull), (''storeName'', JStr ''Walmart''),
           (''date'', JDate (Some 1700000000000)), (''total'', JNum (Finite 42))]"


definition milk :: jsval where
  "milk = JObj [(''receiptId'', JNum (Finite 99)), (''name'', JStr ''Milk''),
                (''price'', JNum (Finite (3 / 2))), (''quantity'', JNum (Finite 2))]"

definition eggs :: jsval where
  "eggs = JObj [(''name'', JStr ''Eggs''), (''price'', JNum (Finite 4)),
                (''quantity'', JNum (Finite 1))]"

definition unpriced :: jsval where
  "unpriced = JObj [(''name'', JStr ''Bread''), (''price'', JStr ''2.50''),
                    (''quantity'', JNum (Finite 1))]"

section \<open>Auxiliary facts\<close>

subsection \<open>Identifiers and lookups\<close>

text \<open>
  A random string that starts with a letter parses to \<open>NaN\<close>; one that starts with
  digits parses to their value.
\<close>

lemma parseInt_no_digit: "parseInt ''V1StGXR8_Z5jdHi6B-myT'' = NaN"
  by (simp add: parseInt_def stripSign_def stripPrefix_def isWhiteSpace_def isDigitOf_def
      digitValue_def)

lemma parseInt_digits: "parseInt ''42ab'' = Finite 42"
  by (simp add: parseInt_def stripSign_def stripPrefix_def isWhiteSpace_def isDigitOf_def
      digitValue_def mathInt_def)

lemma strict_eq_NaN [simp]: "\<not> strict_eq NaN x" "\<not> strict_eq x NaN"
  by (auto simp: strict_eq_def)

lemma getReceiptById_None_iff:
  "getReceiptById st ident = None \<longleftrightarrow> no_receipt_with st ident"
  by (auto simp: getReceiptById_def no_receipt_with_def find_None_iff list_all_iff)

lemma getReceiptById_Some_not_NaN:
  assumes "getReceiptById st ident = Some r"
  shows "ident \<noteq> NaN"
proof
  assume "ident = NaN"
  with assms have "find (\<lambda>receipt. strict_eq (r_id receipt) NaN) (receipts st) = Some r"
    by (simp add: getReceiptById_def)
  then show False by (simp add: find_Some_iff)
qed

subsection \<open>Validation of item payloads\<close>

text \<open>
  The items route overwrites \<^verbatim>\<open>receiptId\<close> and leaves every other property as it is.
  With a receipt identifier that is a number, the schema accepts exactly the valid item
  payloads: the index keys of a spread array or string are decimal numerals and so never
  name a field of the schema.
\<close>

lemma getProp_setProp:
  "getProp (setProp k v ps) k' = (if k' = k then v else getProp ps k')"
  by (induction ps) (auto simp: getProp_def)

lemma valid_item_payload_parse:
  assumes "valid_item_payload item" and "receiptId \<noteq> NaN"
  shows "\<exists>n p q. ReceiptItemSchema_omit (JObj (setProp ''receiptId'' (JNum receiptId) (ownProps item)))
           = Inr \<lparr>id_receiptId = receiptId, id_name = n, id_price = p, id_quantity = q\<rparr>"
proof -
  from assms(1) obtain props where item: "item = JObj props"
    by (cases item) (simp_all add: valid_item_payload_def)
  from assms(1) item obtain n where n: "getProp props ''name'' = JStr n"
    by (cases "getProp props ''name''") (simp_all add: valid_item_payload_def isString_def)
  from assms(1) item obtain p where p: "getProp props ''price'' = JNum p" "p \<noteq> NaN"
    by (cases "getProp props ''price''") (simp_all add: valid_item_payload_def isNumber_def)
  from assms(1) item obtain q where q: "getProp props ''quantity'' = JNum q" "q \<noteq> NaN"
    by (cases "getProp props ''quantity''") (simp_all add: valid_item_payload_def isNumber_def)
  show ?thesis
    using item n p q assms(2)
    by (simp add: ReceiptItemSchema_omit_def getProp_setProp z_number_def z_string_def)
qed

lemma create_items_all_valid:
  assumes "receiptId \<noteq> NaN" and "list_all valid_item_payload items"
  shows "\<exists>new. create_items receiptId stamps n st createdItems items
                 = (st\<lparr>receiptItems := receiptItems st @ new\<rparr>, Inr (createdItems @ new))
               \<and> length new = length items
               \<and> list_all (\<lambda>c. i_receiptId c = receiptId) new"
  using assms(2)
proof (induction items arbitrary: n st createdItems)
  case Nil
  then show ?case by simp
next
  case (Cons item rest)
  from Cons.prems have "valid_item_payload item" and rest: "list_all valid_item_payload rest"
    by simp_all
  with assms(1) obtain nm p q where
    parse: "ReceiptItemSchema_omit (JObj (setProp ''receiptId'' (JNum receiptId) (ownProps item)))
              = Inr \<lparr>id_receiptId = receiptId, id_name = nm, id_price = p, id_quantity = q\<rparr>"
    using valid_item_payload_parse by blast
  define c where "c = \<lparr>i_id = parseInt (nanoid (stamps n)), i_receiptId = receiptId,
                        i_name = nm, i_price = p, i_quantity = q,
                        i_createdAt = created (stamps n), i_updatedAt = updated (stamps n)\<rparr>"
  define st1 where "st1 = st\<lparr>receiptItems := receiptItems st @ [c]\<rparr>"
  have step: "create_items receiptId stamps n st createdItems (item # rest)
                = create_items receiptId stamps (Suc n) st1 (createdItems @ [c]) rest"
    by (simp add: parse createReceiptItem_def c_def st1_def Let_def)
  from Cons.IH [OF rest, of "Suc n" st1 "createdItems @ [c]"] obtain new where
    new: "create_items receiptId stamps (Suc n) st1 (createdItems @ [c]) rest
            = (st1\<lparr>receiptItems := receiptItems st1 @ new\<rparr>, Inr ((createdItems @ [c]) @ new))"
      "length new = length rest" "list_all (\<lambda>c. i_receiptId c = receiptId) new"
    by blast
  have "create_items receiptId stamps n st createdItems (item # rest)
          = (st\<lparr>receiptItems := receiptItems st @ (c # new)\<rparr>, Inr (createdItems @ (c # new)))"
    using step new(1) by (simp add: st1_def)
  moreover have "length (c # new) = length (item # rest)"
    using new(2) by simp
  moreover have "list_all (\<lambda>c. i_receiptId c = receiptId) (c # new)"
    using new(3) by (simp add: c_def)
  ultimately show ?case by blast
qed

lemma create_items_stops_at_invalid:
  assumes "receiptId \<noteq> NaN" and "list_all valid_item_payload pre"
    and "ReceiptItemSchema_omit (JObj (setProp ''receiptId'' (JNum receiptId) (ownProps bad))) = Inl e"
  shows "\<exists>new. create_items receiptId stamps n st createdItems (pre @ bad # rest)
                 = (st\<lparr>receiptItems := receiptItems st @ new\<rparr>, Inl e)
               \<and> length new = length pre
               \<and> list_all (\<lambda>c. i_receiptId c = receiptId) new"
  using assms(2)
proof (induction pre arbitrary: n st createdItems)
  case Nil
  show ?case
    by (rule exI [of _ "[]"]) (simp add: assms(3))
next
  case (Cons item pre)
  from Cons.prems have "valid_item_payload item" and pre: "list_all valid_item_payload pre"
    by simp_all
  with assms(1) obtain nm p q where
    parse: "ReceiptItemSchema_omit (JObj (setProp ''receiptId'' (JNum receiptId) (ownProps item)))
              = Inr \<lparr>id_receiptId = receiptId, id_name = nm, id_price = p, id_quantity = q\<rparr>"
    using valid_item_payload_parse by blast
  define c where "c = \<lparr>i_id = parseInt (nanoid (stamps n)), i_receiptId = receiptId,
                        i_name = nm, i_price = p, i_quantity = q,
                        i_createdAt = created (stamps n), i_updatedAt = updated (stamps n)\<rparr>"
  define st1 where "st1 = st\<lparr>receiptItems := receiptItems st @ [c]\<rparr>"
  have step: "create_items receiptId stamps n st createdItems ((item # pre) @ bad # rest)
                = create_items receiptId stamps (Suc n) st1 (createdItems @ [c]) (pre @ bad # rest)"
    by (simp add: parse createReceiptItem_def c_def st1_def Let_def)
  from Cons.IH [OF pre, of "Suc n" st1 "createdItems @ [c]"] obtain new where
    new: "create_items receiptId stamps (Suc n) st1 (createdItems @ [c]) (pre @ bad # rest)
            = (st1\<lparr>receiptItems := receiptItems st1 @ new\<rparr>, Inl e)"
      "length new = length pre" "list_all (\<lambda>c. i_receiptId c = receiptId) new"
    by blast
  have "create_items receiptId stamps n st createdItems ((item # pre) @ bad # rest)
          = (st\<lparr>receiptItems := receiptItems st @ (c # new)\<rparr>, Inl e)"
    using step new(1) by (simp add: st1_def)
  moreover have "length (c # new) = length (item # pre)"
    using new(2) by simp
  moreover have "list_all (\<lambda>c. i_receiptId c = receiptId) (c # new)"
    using new(3) by (simp add: c_def)
  ultimately show ?case by blast
qed

lemma ReceiptItemSchema_omit_error:
  "ReceiptItemSchema_omit v = Inl e \<Longrightarrow> \<exists>is. e = ZodError is"
  by (auto simp: ReceiptItemSchema_omit_def Let_def split: jsval.splits sum.splits)

lemma indexKey_digits: "set (indexKey n) \<subseteq> set ''0123456789''"
proof (induction n rule: indexKey.induct)
  case (1 n)
  have nth: "\<And>k. k < 10 \<Longrightarrow> ''0123456789'' ! k \<in> set ''0123456789''"
    by (rule nth_mem) simp
  show ?case
  proof (cases "n < 10")
    case True
    then show ?thesis using nth [of n] by (subst indexKey.simps) simp
  next
    case False
    then have "set (indexKey (n div 10)) \<subseteq> set ''0123456789''" by (rule "1.IH")
    moreover have "''0123456789'' ! (n mod 10) \<in> set ''0123456789''"
      by (rule nth) simp
    ultimately show ?thesis using False by (subst indexKey.simps) simp
  qed
qed

lemma indexKey_not_field:
  assumes "k \<noteq> []" and "hd k \<notin> set ''0123456789''"
  shows "getProp (zip (map indexKey [0..<length xs]) xs) k = JUndefined"
proof -
  have "k \<notin> set (map indexKey [0..<length xs])"
  proof
    assume "k \<in> set (map indexKey [0..<length xs])"
    then obtain n where "k = indexKey n" by auto
    with indexKey_digits [of n] assms(1) have "hd k \<in> set ''0123456789''"
      using hd_in_set by blast
    with assms(2) show False by simp
  qed
  moreover have "length (map indexKey [0..<length xs]) = length xs" by simp
  ultimately have "map_of (zip (map indexKey [0..<length xs]) xs) k = None"
    using map_of_zip_is_None [of "map indexKey [0..<length xs]" xs k] by blast
  then show ?thesis by (simp only: getProp_def option.case)
qed

lemma z_string_valid: "isString v \<Longrightarrow> \<exists>s. z_string p v = Inr s"
  by (cases v) (simp_all add: z_string_def isString_def)

lemma z_string_invalid: "\<not> isString v \<Longrightarrow> \<exists>i. z_string p v = Inl [i]"
  by (cases v) (simp_all add: z_string_def isString_def)

lemma z_number_valid: "isNumber v \<Longrightarrow> \<exists>n. z_number p v = Inr n"
  by (cases v) (simp_all add: z_number_def isNumber_def)

lemma z_number_invalid: "\<not> isNumber v \<Longrightarrow> \<exists>i. z_number p v = Inl [i]"
  by (cases v) (simp_all add: z_number_def isNumber_def)

lemma item_fields_invalid:
  assumes "\<not> (isString (getProp props ''name'') \<and> isNumber (getProp props ''price'')
              \<and> isNumber (getProp props ''quantity''))"
  shows "\<exists>is. is \<noteq> [] \<and> ReceiptItemSchema_omit (JObj props) = Inl (ZodError is)"
proof -
  let ?r = "z_number [''receiptId''] (getProp props ''receiptId'')"
  let ?n = "z_string [''name''] (getProp props ''name'')"
  let ?p = "z_number [''price''] (getProp props ''price'')"
  let ?q = "z_number [''quantity''] (getProp props ''quantity'')"
  have bad: "issues ?n @ issues ?p @ issues ?q \<noteq> []"
    using assms z_string_invalid [of "getProp props ''name''" "[''name'']"]
      z_number_invalid [of "getProp props ''price''" "[''price'']"]
      z_number_invalid [of "getProp props ''quantity''" "[''quantity'']"]
    by (auto simp: issues_def)
  then have "\<not> (\<exists>r n p q. ?r = Inr r \<and> ?n = Inr n \<and> ?p = Inr p \<and> ?q = Inr q)"
    by (auto simp: issues_def)
  then have "ReceiptItemSchema_omit (JObj props)
               = Inl (ZodError (issues ?r @ issues ?n @ issues ?p @ issues ?q))"
    by (auto simp: ReceiptItemSchema_omit_def Let_def split: sum.splits)
  with bad show ?thesis by simp
qed

lemma invalid_item_payload_parse:
  assumes "\<not> valid_item_payload item"
  shows "\<exists>is. is \<noteq> [] \<and>
           ReceiptItemSchema_omit (JObj (setProp ''receiptId'' (JNum receiptId) (ownProps item)))
             = Inl (ZodError is)"
proof (rule item_fields_invalid)
  let ?props = "setProp ''receiptId'' (JNum receiptId) (ownProps item)"
  have name: "getProp ?props ''name'' = getProp (ownProps item) ''name''"
    and price: "getProp ?props ''price'' = getProp (ownProps item) ''price''"
    and quantity: "getProp ?props ''quantity'' = getProp (ownProps item) ''quantity''"
    by (simp_all add: getProp_setProp)
  have "\<not> isString (getProp (ownProps item) ''name'')
          \<or> \<not> isNumber (getProp (ownProps item) ''price'')
          \<or> \<not> isNumber (getProp (ownProps item) ''quantity'')"
  proof (cases item)
    case (JObj props)
    with assms show ?thesis by (simp add: valid_item_payload_def)
  next
    case (JArr xs)
    then show ?thesis by (simp add: indexKey_not_field isString_def)
  next
    case (JStr s)
    have "getProp (zip (map indexKey [0..<length (map (\<lambda>c. JStr [c]) s)]) (map (\<lambda>c. JStr [c]) s)) ''name''
            = JUndefined"
      by (rule indexKey_not_field) simp_all
    with JStr show ?thesis by (simp add: isString_def)
  qed (simp_all add: getProp_def isString_def)
  then show "\<not> (isString (getProp ?props ''name'') \<and> isNumber (getProp ?props ''price'')
                \<and> isNumber (getProp ?props ''quantity''))"
    by (simp only: name price quantity) blast
qed

subsection \<open>Deleting an item\<close>

lemma findIndex_none: "list_all (\<lambda>x. \<not> P x) xs \<Longrightarrow> findIndex P xs = - 1"
  by (induction xs) simp_all

lemma findIndex_first:
  "list_all (\<lambda>x. \<not> P x) pre \<Longrightarrow> P x \<Longrightarrow> findIndex P (pre @ x # post) = int (length pre)"
  by (induction pre) (simp_all add: Let_def)

lemma splice1_middle: "splice1 (length pre) (pre @ x # post) = pre @ post"
  by (simp add: splice1_def)

lemma deleteReceiptItem_no_match:
  assumes "list_all (\<lambda>y. \<not> strict_eq (i_id y) ident) (receiptItems st)"
  shows "deleteReceiptItem st ident = st"
  using findIndex_none [OF assms] by (simp add: deleteReceiptItem_def)

lemma deleteReceiptItem_first_match:
  assumes "receiptItems st = pre @ x # post" and "strict_eq (i_id x) ident"
    and "list_all (\<lambda>y. \<not> strict_eq (i_id y) ident) pre"
  shows "deleteReceiptItem st ident = st\<lparr>receiptItems := pre @ post\<rparr>"
proof -
  have "findIndex (\<lambda>item. strict_eq (i_id item) ident) (receiptItems st) = int (length pre)"
    unfolding assms(1) using assms(3) assms(2) by (rule findIndex_first)
  then show ?thesis
    by (simp add: deleteReceiptItem_def assms(1) splice1_middle)
qed

subsection \<open>Path segments and labels\<close>

text \<open>
  The last part of a split path is what follows its last separator, and the two
  replacements of the helper compute the label position by position.
\<close>

lemma splitOn_no_sep: "d \<notin> set s \<Longrightarrow> splitOn d s = [s]"
  by (induction s) auto

lemma splitOn_not_Nil: "splitOn d s \<noteq> []"
  by (induction s) (simp_all split: list.splits)

lemma splitOn_append: "splitOn d (a @ d # b) = splitOn d a @ splitOn d b"
proof (induction a)
  case Nil
  show ?case by simp
next
  case (Cons c a)
  obtain p ps where "splitOn d a = p # ps"
    using splitOn_not_Nil [of d a] by (cases "splitOn d a") auto
  with Cons show ?case by simp
qed

lemma last_splitOn: "d \<notin> set seg \<Longrightarrow> last (splitOn d (pre @ d # seg)) = seg"
  by (simp add: splitOn_append splitOn_no_sep)

lemma upperAtBoundary_length [simp]: "length (upperAtBoundary b s) = length s"
  by (induction s arbitrary: b) simp_all

lemma upperAtBoundary_nth:
  "i < length s \<Longrightarrow>
   upperAtBoundary b s ! i =
     (if isWordChar (s ! i) \<and> \<not> (if i = 0 then b else isWordChar (s ! (i - 1)))
      then toUpperCase (s ! i) else s ! i)"
proof (induction s arbitrary: b i)
  case Nil
  then show ?case by simp
next
  case (Cons c cs)
  show ?case
  proof (cases i)
    case 0
    then show ?thesis by simp
  next
    case (Suc j)
    with Cons.prems have "j < length cs" by simp
    from Cons.IH [OF this, of "isWordChar c"] Suc show ?thesis
      by (cases j) simp_all
  qed
qed

lemma not_word_hyphen_space: "\<not> isWordChar CHR ''-''" "\<not> isWordChar CHR '' ''"
  by (simp_all add: isWordChar_def isAlpha_def isDigit_def)

lemma isWordChar_replaceHyphens:
  "i < length s \<Longrightarrow> isWordChar (replaceHyphens s ! i) = isWordChar (s ! i)"
  by (simp add: replaceHyphens_def not_word_hyphen_space)

lemma label_of_segment_refines:
  "upperAtBoundary False (replaceHyphens seg) = label_of_segment seg"
proof (rule nth_equalityI)
  show "length (upperAtBoundary False (replaceHyphens seg)) = length (label_of_segment seg)"
    by (simp add: replaceHyphens_def label_of_segment_def)
next
  fix i
  assume "i < length (upperAtBoundary False (replaceHyphens seg))"
  then have i: "i < length seg" by (simp add: replaceHyphens_def)
  then have i': "i < length (replaceHyphens seg)" by (simp add: replaceHyphens_def)
  have prev: "0 < i \<Longrightarrow> isWordChar (replaceHyphens seg ! (i - 1)) = isWordChar (seg ! (i - 1))"
    using i by (simp add: isWordChar_replaceHyphens)
  have cur: "isWordChar (replaceHyphens seg ! i) = isWordChar (seg ! i)"
    using i by (rule isWordChar_replaceHyphens)
  have here: "replaceHyphens seg ! i = (if seg ! i = CHR ''-'' then CHR '' '' else seg ! i)"
    using i by (simp add: replaceHyphens_def)
  show "upperAtBoundary False (replaceHyphens seg) ! i = label_of_segment seg ! i"
  proof (cases "seg ! i = CHR ''-''")
    case True
    then show ?thesis
      using i i' cur here
      by (simp add: upperAtBoundary_nth label_of_segment_def not_word_hyphen_space)
  next
    case False
    then show ?thesis
      using i i' cur here prev
      by (cases "i = 0") (simp_all add: upperAtBoundary_nth label_of_segment_def Let_def)
  qed
qed

subsection \<open>Receipts and users\<close>

lemma receipt_found:
  assumes "receipt \<in> set (receipts st)" and "strict_eq (r_id receipt) ident"
  shows "\<exists>r. getReceiptById st ident = Some r"
proof (cases "getReceiptById st ident")
  case None
  then have "no_receipt_with st ident" by (simp add: getReceiptById_None_iff)
  with assms show ?thesis by (auto simp: no_receipt_with_def list_all_iff)
next
  case (Some r)
  then show ?thesis by blast
qed



lemma valid_receipt_payload_parse:
  assumes "valid_receipt_payload P"
  shows "\<exists>d. ReceiptSchema_omit P = Inr d"
proof -
  from assms obtain props where P: "P = JObj props"
    by (cases P) (simp_all add: valid_receipt_payload_def)
  from assms P have u: "\<exists>u. z_number_nullable [''userId''] (getProp props ''userId'') = Inr u"
    by (cases "getProp props ''userId''")
      (auto simp: valid_receipt_payload_def z_number_nullable_def z_number_def isNumber_def)
  from assms P have s: "\<exists>s. z_string [''storeName''] (getProp props ''storeName'') = Inr s"
    by (simp add: valid_receipt_payload_def z_string_valid)
  from assms P have d: "\<exists>d. z_date [''date''] (getProp props ''date'') = Inr d"
    by (cases "getProp props ''date''")
      (auto simp: valid_receipt_payload_def z_date_def split: option.splits)
  from assms P have t: "\<exists>t. z_number [''total''] (getProp props ''total'') = Inr t"
    by (simp add: valid_receipt_payload_def z_number_valid)
  from u s d t P show ?thesis
    by (auto simp: ReceiptSchema_omit_def Let_def)
qed

text \<open>
  The round trip through \<^verbatim>\<open>POST /api/receipts\<close> and \<^verbatim>\<open>GET /api/receipts/:id\<close> where
  the new identifier is a number that no stored receipt has: the read returns the payload
  with the assigned identifier and timestamps. Where the new identifier equals that of an
  older receipt, the read returns the older one.
\<close>

lemma find_after_none: "find P xs = None \<Longrightarrow> find P (xs @ ys) = find P ys"
  by (induction xs) (simp_all split: if_splits)

lemma receipt_round_trip_fresh_id:
  assumes "ReceiptSchema_omit P = Inr d"
    and "parseInt (nanoid s) \<noteq> NaN"
    and "no_receipt_with st (parseInt (nanoid s))"
    and "parseInt idParam = parseInt (nanoid s)"
  shows "snd (get_api_receipts_id (fst (post_api_receipts st P s)) idParam)
           = \<lparr>status = 200,
              body = ReceiptJson \<lparr>r_id = parseInt (nanoid s), r_userId = rd_userId d,
                                 r_storeName = rd_storeName d, r_date = rd_date d,
                                 r_total = rd_total d,
                                 r_createdAt = created s, r_updatedAt = updated s\<rparr>\<rparr>"
proof -
  let ?r = "\<lparr>r_id = parseInt (nanoid s), r_userId = rd_userId d,
             r_storeName = rd_storeName d, r_date = rd_date d, r_total = rd_total d,
             r_createdAt = created s, r_updatedAt = updated s\<rparr>"
  have st': "fst (post_api_receipts st P s) = st\<lparr>receipts := receipts st @ [?r]\<rparr>"
    by (simp add: post_api_receipts_def assms(1) createReceipt_def Let_def)
  from assms(3) have none: "find (\<lambda>r. strict_eq (r_id r) (parseInt (nanoid s))) (receipts st) = None"
    using getReceiptById_None_iff [of st "parseInt (nanoid s)"] by (simp add: getReceiptById_def)
  have "find (\<lambda>r. strict_eq (r_id r) (parseInt (nanoid s))) (receipts st @ [?r])
          = find (\<lambda>r. strict_eq (r_id r) (parseInt (nanoid s))) [?r]"
    using none by (rule find_after_none)
  also have "\<dots> = Some ?r"
    using assms(2) by (simp add: strict_eq_def)
  finally have "getReceiptById (st\<lparr>receipts := receipts st @ [?r]\<rparr>) (parseInt idParam) = Some ?r"
    by (simp add: getReceiptById_def assms(4))
  then show ?thesis by (simp add: st' get_api_receipts_id_def)
qed

lemma receipt_shadowed_by_equal_id:
  "snd (get_api_receipts_id
          (fst (post_api_receipts sample_store sample_receipt_payload
                  \<lparr>nanoid = ''7Uakgb_J5m9g-0JDMbcJq'', created = 1700000000900,
                   updated = 1700000000900\<rparr>)) ''7'')
     = \<lparr>status = 200, body = ReceiptJson sample_receipt\<rparr>"
  by code_simp

subsection \<open>Receipt payloads on the wire\<close>

text \<open>
  The receipt schema asks for a \<^verbatim>\<open>Date\<close> instance under \<^verbatim>\<open>date\<close>. A property of a JSON
  object is a JSON value or is missing, so the date check fails on every JSON object,
  and no JSON value is a valid receipt payload.
\<close>

lemma json_getProp:
  "list_all (\<lambda>p. is_json (snd p)) props \<Longrightarrow>
   getProp props k = JUndefined \<or> is_json (getProp props k)"
  by (induction props) (auto simp: getProp_def)




lemma valid_receipt_payload_not_json:
  assumes "is_json v"
  shows "\<not> valid_receipt_payload v"
proof (cases v)
  case (JObj props)
  from assms JObj have "list_all (\<lambda>p. is_json (snd p)) props" by simp
  then have "getProp props ''date'' = JUndefined \<or> is_json (getProp props ''date'')"
    by (rule json_getProp)
  then have "\<not> (case getProp props ''date'' of JDate (Some _) \<Rightarrow> True | _ \<Rightarrow> False)"
    by (cases "getProp props ''date''") simp_all
  with JObj show ?thesis by (simp add: valid_receipt_payload_def)
qed (simp_all add: valid_receipt_payload_def)

text \<open>
  For a request body that does hold a \<^verbatim>\<open>Date\<close> instance, which no JSON text produces:
  when the random string does not start with a digit the receipt is stored under the
  identifier \<open>NaN\<close>, and the read then answers 404 for every path parameter.
\<close>

lemma created_receipt_nan_id_unreadable:
  "valid_receipt_payload sample_receipt_payload
   \<and> post_api_receipts empty_store sample_receipt_payload sample_stamp
       = (\<lparr>users = [],
           receipts = [\<lparr>r_id = NaN, r_userId = None, r_storeName = ''Walmart'',
                        r_date = 1700000000000, r_total = Finite 42,
                        r_createdAt = 1700000000500, r_updatedAt = 1700000000501\<rparr>],
           receiptItems = []\<rparr>,
          \<lparr>status = 201,
           body = ReceiptJson \<lparr>r_id = NaN, r_userId = None, r_storeName = ''Walmart'',
                              r_date = 1700000000000, r_total = Finite 42,
                              r_createdAt = 1700000000500, r_updatedAt = 1700000000501\<rparr>\<rparr>)
   \<and> snd (get_api_receipts_id
            (fst (post_api_receipts empty_store sample_receipt_payload sample_stamp)) idParam)
       = \<lparr>status = 404, body = MessageJson ''Receipt not found''\<rparr>"
proof -
  have v: "valid_receipt_payload sample_receipt_payload" by code_simp
  have p: "post_api_receipts empty_store sample_receipt_payload sample_stamp
       = (\<lparr>users = [],
           receipts = [\<lparr>r_id = NaN, r_userId = None, r_storeName = ''Walmart'',
                        r_date = 1700000000000, r_total = Finite 42,
                        r_createdAt = 1700000000500, r_updatedAt = 1700000000501\<rparr>],
           receiptItems = []\<rparr>,
          \<lparr>status = 201,
           body = ReceiptJson \<lparr>r_id = NaN, r_userId = None, r_storeName = ''Walmart'',
                              r_date = 1700000000000, r_total = Finite 42,
                              r_createdAt = 1700000000500, r_updatedAt = 1700000000501\<rparr>\<rparr>)"
    by code_simp
  have g: "snd (get_api_receipts_id
            (fst (post_api_receipts empty_store sample_receipt_payload sample_stamp)) idParam)
       = \<lparr>status = 404, body = MessageJson ''Receipt not found''\<rparr>"
    unfolding p by (simp add: get_api_receipts_id_def getReceiptById_def)
  from v p g show ?thesis by blast
qed

section \<open>The claims\<close>



text \<open>
  C2. When the path parameter of \<^verbatim>\<open>POST /api/receipts/:receiptId/items\<close> identifies a
  receipt of the store and the body is an array of valid item payloads, the answer is 201
  with one created item for each payload, the created items are appended to the store in
  order, and each of them carries the numeric path parameter as its \<^verbatim>\<open>receiptId\<close>,
  whatever \<^verbatim>\<open>receiptId\<close> the payloads hold.
\<close>

theorem post_items_creates_each:
  assumes "receipt \<in> set (receipts st)"
    and "strict_eq (r_id receipt) (parseInt receiptIdParam)"
    and "list_all valid_item_payload items"
  shows "\<exists>createdItems.
           post_api_receipts_items st receiptIdParam (JArr items) stamps
             = (st\<lparr>receiptItems := receiptItems st @ createdItems\<rparr>,
                \<lparr>status = 201, body = ItemsJson createdItems\<rparr>)
           \<and> length createdItems = length items
           \<and> list_all (\<lambda>c. i_receiptId c = parseInt receiptIdParam) createdItems"
proof -
  from assms(1,2) obtain r where r: "getReceiptById st (parseInt receiptIdParam) = Some r"
    using receipt_found by blast
  then have "parseInt receiptIdParam \<noteq> NaN" by (rule getReceiptById_Some_not_NaN)
  from create_items_all_valid [OF this assms(3), of stamps 0 st "[]"] obtain new where
    new: "create_items (parseInt receiptIdParam) stamps 0 st [] items
            = (st\<lparr>receiptItems := receiptItems st @ new\<rparr>, Inr ([] @ new))"
      "length new = length items"
      "list_all (\<lambda>c. i_receiptId c = parseInt receiptIdParam) new"
    by blast
  have "post_api_receipts_items st receiptIdParam (JArr items) stamps
          = (st\<lparr>receiptItems := receiptItems st @ new\<rparr>, \<lparr>status = 201, body = ItemsJson new\<rparr>)"
    by (simp add: post_api_receipts_items_def r new(1))
  with new(2,3) show ?thesis by blast
qed

theorem post_items_creates_each_witness:
  "sample_receipt \<in> set (receipts sample_store)
   \<and> strict_eq (r_id sample_receipt) (parseInt ''7'')
   \<and> list_all valid_item_payload [milk, eggs]
   \<and> (\<exists>createdItems.
         post_api_receipts_items sample_store ''7'' (JArr [milk, eggs]) (\<lambda>n. sample_stamp)
           = (sample_store\<lparr>receiptItems := receiptItems sample_store @ createdItems\<rparr>,
              \<lparr>status = 201, body = ItemsJson createdItems\<rparr>)
         \<and> length createdItems = length [milk, eggs]
         \<and> list_all (\<lambda>c. i_receiptId c = parseInt ''7'') createdItems)"
proof -
  have h1: "sample_receipt \<in> set (receipts sample_store)" by (simp add: sample_store_def)
  have h2: "strict_eq (r_id sample_receipt) (parseInt ''7'')" by code_simp
  have h3: "list_all valid_item_payload [milk, eggs]" by code_simp
  from post_items_creates_each [OF h1 h2 h3, of "\<lambda>n. sample_stamp"] h1 h2 h3
  show ?thesis by blast
qed

text \<open>
  C3. When no receipt of the store matches the path parameter,
  \<^verbatim>\<open>POST /api/receipts/:receiptId/items\<close> answers 404 and leaves the store as it is, for
  every request body.
\<close>

theorem post_items_missing_receipt_404:
  assumes "no_receipt_with st (parseInt receiptIdParam)"
  shows "post_api_receipts_items st receiptIdParam reqBody stamps =
           (st, \<lparr>status = 404, body = MessageJson ''Receipt not found''\<rparr>)"
proof -
  from assms have "getReceiptById st (parseInt receiptIdParam) = None"
    by (simp add: getReceiptById_None_iff)
  then show ?thesis by (simp add: post_api_receipts_items_def)
qed

theorem post_items_missing_receipt_404_witness:
  "no_receipt_with sample_store (parseInt ''8'')
   \<and> post_api_receipts_items sample_store ''8'' (JArr [milk, eggs]) (\<lambda>n. sample_stamp)
       = (sample_store, \<lparr>status = 404, body = MessageJson ''Receipt not found''\<rparr>)"
proof -
  have h: "no_receipt_with sample_store (parseInt ''8'')" by code_simp
  from post_items_missing_receipt_404 [OF h] h show ?thesis by blast
qed




text \<open>
  C5. \<^verbatim>\<open>createUser\<close> always appends the new record and returns it; it never looks at
  the emails already stored. Two calls with the same email store both records, so the
  store then holds two more users with that email than before, although
  \<^verbatim>\<open>getUserByEmail\<close> finds a user with that email after the first call.
\<close>

theorem createUser_no_uniqueness_check:
  "createUser st data s =
     (st\<lparr>users := users st @
         [\<lparr>u_id = parseInt (nanoid s), u_name = ud_name data, u_email = ud_email data,
           u_createdAt = created s, u_updatedAt = updated s\<rparr>]\<rparr>,
      \<lparr>u_id = parseInt (nanoid s), u_name = ud_name data, u_email = ud_email data,
        u_createdAt = created s, u_updatedAt = updated s\<rparr>)
   \<and> (let (st1, u1) = createUser st \<lparr>ud_name = n1, ud_email = e\<rparr> s1;
           (st2, u2) = createUser st1 \<lparr>ud_name = n2, ud_email = e\<rparr> s2
       in users st2 = users st @ [u1, u2] \<and> u_email u1 = e \<and> u_email u2 = e
          \<and> length (filter (\<lambda>u. u_email u = e) (users st2))
              = length (filter (\<lambda>u. u_email u = e) (users st)) + 2
          \<and> getUserByEmail st1 e \<noteq> None)"
  by (auto simp: createUser_def Let_def getUserByEmail_def find_None_iff)

text \<open>
  C6. \<^verbatim>\<open>DELETE /api/receipt-items/:id\<close> always answers 204 with no body. When no item
  matches the identifier the store is unchanged. Otherwise exactly the first matching item
  is removed: the items before it and after it stay, in their order, and the users and
  receipts are untouched.
\<close>

theorem delete_item_removes_first_match:
  "snd (delete_api_receipt_items_id st idParam) = \<lparr>status = 204, body = NoBody\<rparr>
   \<and> (list_all (\<lambda>y. \<not> strict_eq (i_id y) (parseInt idParam)) (receiptItems st)
        \<longrightarrow> fst (delete_api_receipt_items_id st idParam) = st)
   \<and> (receiptItems st = pre @ x # post \<and> strict_eq (i_id x) (parseInt idParam)
        \<and> list_all (\<lambda>y. \<not> strict_eq (i_id y) (parseInt idParam)) pre
        \<longrightarrow> fst (delete_api_receipt_items_id st idParam) = st\<lparr>receiptItems := pre @ post\<rparr>)"
  by (simp add: delete_api_receipt_items_id_def deleteReceiptItem_no_match
      deleteReceiptItem_first_match)

theorem delete_item_removes_first_match_witness:
  "snd (delete_api_receipt_items_id
          \<lparr>users = [], receipts = [],
           receiptItems =
             [\<lparr>i_id = Finite 3, i_receiptId = Finite 7, i_name = ''Milk'', i_price = Finite 2,
               i_quantity = Finite 1, i_createdAt = 0, i_updatedAt = 0\<rparr>,
              \<lparr>i_id = Finite 5, i_receiptId = Finite 7, i_name = ''Eggs'', i_price = Finite 4,
               i_quantity = Finite 1, i_createdAt = 1, i_updatedAt = 1\<rparr>,
              \<lparr>i_id = Finite 5, i_receiptId = Finite 7, i_name = ''Bread'', i_price = Finite 3,
               i_quantity = Finite 1, i_createdAt = 2, i_updatedAt = 2\<rparr>]\<rparr> ''5'')
     = \<lparr>status = 204, body = NoBody\<rparr>
   \<and> receiptItems (fst (delete_api_receipt_items_id
          \<lparr>users = [], receipts = [],
           receiptItems =
             [\<lparr>i_id = Finite 3, i_receiptId = Finite 7, i_name = ''Milk'', i_price = Finite 2,
               i_quantity = Finite 1, i_createdAt = 0, i_updatedAt = 0\<rparr>,
              \<lparr>i_id = Finite 5, i_receiptId = Finite 7, i_name = ''Eggs'', i_price = Finite 4,
               i_quantity = Finite 1, i_createdAt = 1, i_updatedAt = 1\<rparr>,
              \<lparr>i_id = Finite 5, i_receiptId = Finite 7, i_name = ''Bread'', i_price = Finite 3,
               i_quantity = Finite 1, i_createdAt = 2, i_updatedAt = 2\<rparr>]\<rparr> ''5''))
     = [\<lparr>i_id = Finite 3, i_receiptId = Finite 7, i_name = ''Milk'', i_price = Finite 2,
         i_quantity = Finite 1, i_createdAt = 0, i_updatedAt = 0\<rparr>,
        \<lparr>i_id = Finite 5, i_receiptId = Finite 7, i_name = ''Bread'', i_price = Finite 3,
         i_quantity = Finite 1, i_createdAt = 2, i_updatedAt = 2\<rparr>]
   \<and> fst (delete_api_receipt_items_id sample_store ''5'') = sample_store"
proof -
  let ?milk = "\<lparr>i_id = Finite 3, i_receiptId = Finite 7, i_name = ''Milk'', i_price = Finite 2,
                i_quantity = Finite 1, i_createdAt = 0, i_updatedAt = 0\<rparr>"
  let ?eggs = "\<lparr>i_id = Finite 5, i_receiptId = Finite 7, i_name = ''Eggs'', i_price = Finite 4,
                i_quantity = Finite 1, i_createdAt = 1, i_updatedAt = 1\<rparr>"
  let ?bread = "\<lparr>i_id = Finite 5, i_receiptId = Finite 7, i_name = ''Bread'', i_price = Finite 3,
                 i_quantity = Finite 1, i_createdAt = 2, i_updatedAt = 2\<rparr>"
  let ?st = "\<lparr>users = [], receipts = [], receiptItems = [?milk, ?eggs, ?bread]\<rparr>"
  have five: "parseInt ''5'' = Finite 5" by code_simp
  have h1: "receiptItems ?st = [?milk] @ ?eggs # [?bread]" by simp
  have h2: "strict_eq (i_id ?eggs) (parseInt ''5'')" by (simp add: five strict_eq_def)
  have h3: "list_all (\<lambda>y. \<not> strict_eq (i_id y) (parseInt ''5'')) [?milk]"
    by (simp add: five strict_eq_def)
  have h4: "list_all (\<lambda>y. \<not> strict_eq (i_id y) (parseInt ''5'')) (receiptItems sample_store)"
    by (simp add: sample_store_def)
  from delete_item_removes_first_match [of ?st "''5''" "[?milk]" ?eggs "[?bread]"] h1 h2 h3
  have a: "snd (delete_api_receipt_items_id ?st ''5'') = \<lparr>status = 204, body = NoBody\<rparr>"
    and b: "fst (delete_api_receipt_items_id ?st ''5'') = ?st\<lparr>receiptItems := [?milk] @ [?bread]\<rparr>"
    by blast+
  from delete_item_removes_first_match [of sample_store "''5''"] h4
  have c: "fst (delete_api_receipt_items_id sample_store ''5'') = sample_store"
    by blast
  from a b c show ?thesis by simp
qed

text \<open>
  C7. When no receipt of the store matches the path parameter,
  \<^verbatim>\<open>GET /api/receipts/:id\<close> answers 404, not 500, and the store is unchanged.
\<close>

theorem get_missing_receipt_404:
  assumes "no_receipt_with st (parseInt idParam)"
  shows "get_api_receipts_id st idParam =
           (st, \<lparr>status = 404, body = MessageJson ''Receipt not found''\<rparr>)"
proof -
  from assms have "getReceiptById st (parseInt idParam) = None"
    by (simp add: getReceiptById_None_iff)
  then show ?thesis by (simp add: get_api_receipts_id_def)
qed

theorem get_missing_receipt_404_witness:
  "no_receipt_with sample_store (parseInt ''8'')
   \<and> get_api_receipts_id sample_store ''8''
       = (sample_store, \<lparr>status = 404, body = MessageJson ''Receipt not found''\<rparr>)"
proof -
  have h: "no_receipt_with sample_store (parseInt ''8'')" by code_simp
  from get_missing_receipt_404 [OF h] h show ?thesis by blast
qed

text \<open>
  C8. Batch item creation is not atomic. When the path parameter identifies a receipt,
  the first entries of the array are valid item payloads and the next entry is not, the
  answer is 400 with the message derived from the validation issues, and the items created
  from the entries before the invalid one remain in the store.
\<close>

theorem post_items_not_atomic:
  assumes "receipt \<in> set (receipts st)"
    and "strict_eq (r_id receipt) (parseInt receiptIdParam)"
    and "list_all valid_item_payload pre"
    and "\<not> valid_item_payload bad"
  shows "\<exists>stored is.
           post_api_receipts_items st receiptIdParam (JArr (pre @ bad # rest)) stamps
             = (st\<lparr>receiptItems := receiptItems st @ stored\<rparr>,
                \<lparr>status = 400, body = MessageJson (fromZodError is)\<rparr>)
           \<and> is \<noteq> []
           \<and> length stored = length pre
           \<and> list_all (\<lambda>c. i_receiptId c = parseInt receiptIdParam) stored"
proof -
  from assms(1,2) obtain r where r: "getReceiptById st (parseInt receiptIdParam) = Some r"
    using receipt_found by blast
  then have rid: "parseInt receiptIdParam \<noteq> NaN" by (rule getReceiptById_Some_not_NaN)
  from invalid_item_payload_parse [OF assms(4), of "parseInt receiptIdParam"] obtain "is" where
    bad: "is \<noteq> []"
      "ReceiptItemSchema_omit
         (JObj (setProp ''receiptId'' (JNum (parseInt receiptIdParam)) (ownProps bad)))
         = Inl (ZodError is)"
    by blast
  from create_items_stops_at_invalid [OF rid assms(3) bad(2), of stamps 0 st "[]" rest]
  obtain new where
    new: "create_items (parseInt receiptIdParam) stamps 0 st [] (pre @ bad # rest)
            = (st\<lparr>receiptItems := receiptItems st @ new\<rparr>, Inl (ZodError is))"
      "length new = length pre"
      "list_all (\<lambda>c. i_receiptId c = parseInt receiptIdParam) new"
    by blast
  have "post_api_receipts_items st receiptIdParam (JArr (pre @ bad # rest)) stamps
          = (st\<lparr>receiptItems := receiptItems st @ new\<rparr>,
             \<lparr>status = 400, body = MessageJson (fromZodError is)\<rparr>)"
    by (simp add: post_api_receipts_items_def r new(1))
  with new(2,3) bad(1) show ?thesis by blast
qed

theorem post_items_not_atomic_witness:
  "sample_receipt \<in> set (receipts sample_store)
   \<and> strict_eq (r_id sample_receipt) (parseInt ''7'')
   \<and> list_all valid_item_payload [milk]
   \<and> \<not> valid_item_payload unpriced
   \<and> (\<exists>stored is.
         post_api_receipts_items sample_store ''7'' (JArr ([milk] @ unpriced # [eggs]))
             (\<lambda>n. sample_stamp)
           = (sample_store\<lparr>receiptItems := receiptItems sample_store @ stored\<rparr>,
              \<lparr>status = 400, body = MessageJson (fromZodError is)\<rparr>)
         \<and> is \<noteq> []
         \<and> length stored = length [milk]
         \<and> list_all (\<lambda>c. i_receiptId c = parseInt ''7'') stored)"
proof -
  have h1: "sample_receipt \<in> set (receipts sample_store)" by (simp add: sample_store_def)
  have h2: "strict_eq (r_id sample_receipt) (parseInt ''7'')" by code_simp
  have h3: "list_all valid_item_payload [milk]" by code_simp
  have h4: "\<not> valid_item_payload unpriced" by code_simp
  from post_items_not_atomic [OF h1 h2 h3 h4, of "[eggs]" "\<lambda>n. sample_stamp"] h1 h2 h3 h4
  show ?thesis by blast
qed

text \<open>
  C9. When the payload passes validation, the record is created and
  \<^verbatim>\<open>POST /api/receipts\<close> answers 201, while \<^verbatim>\<open>POST /api/users\<close> and
  \<^verbatim>\<open>POST /api/receipt-items\<close> answer 200.
\<close>

theorem create_status_codes:
  "(ReceiptSchema_omit receiptBody = Inr receiptData \<longrightarrow>
      post_api_receipts st receiptBody s
        = (fst (createReceipt st receiptData s),
           \<lparr>status = 201, body = ReceiptJson (snd (createReceipt st receiptData s))\<rparr>))
   \<and> (UserSchema_omit email_ok userBody = Inr userData \<longrightarrow>
      post_api_users email_ok st userBody s
        = (fst (createUser st userData s),
           \<lparr>status = 200, body = UserJson (snd (createUser st userData s))\<rparr>))
   \<and> (ReceiptItemSchema_omit itemBody = Inr itemData \<longrightarrow>
      post_api_receipt_items st itemBody s
        = (fst (createReceiptItem st itemData s),
           \<lparr>status = 200, body = ItemJson (snd (createReceiptItem st itemData s))\<rparr>))"
  by (simp add: post_api_receipts_def post_api_users_def post_api_receipt_items_def
      split: prod.splits)

theorem create_status_codes_witness:
  "(\<exists>d. ReceiptSchema_omit sample_receipt_payload = Inr d)
   \<and> status (snd (post_api_receipts sample_store sample_receipt_payload sample_stamp)) = 201
   \<and> (\<exists>d. UserSchema_omit zod_email
             (JObj [(''name'', JStr ''Ann''), (''email'', JStr ''ann@example.com'')]) = Inr d)
   \<and> status (snd (post_api_users zod_email sample_store
         (JObj [(''name'', JStr ''Ann''), (''email'', JStr ''ann@example.com'')]) sample_stamp)) = 200
   \<and> (\<exists>d. ReceiptItemSchema_omit milk = Inr d)
   \<and> status (snd (post_api_receipt_items sample_store milk sample_stamp)) = 200"
proof -
  let ?ann = "JObj [(''name'', JStr ''Ann''), (''email'', JStr ''ann@example.com'')]"
  have h1: "ReceiptSchema_omit sample_receipt_payload
              = Inr \<lparr>rd_userId = None, rd_storeName = ''Walmart'', rd_date = 1700000000000,
                     rd_total = Finite 42\<rparr>"
    by code_simp
  have h2: "UserSchema_omit zod_email ?ann = Inr \<lparr>ud_name = ''Ann'', ud_email = ''ann@example.com''\<rparr>"
    by code_simp
  have h3: "ReceiptItemSchema_omit milk
              = Inr \<lparr>id_receiptId = Finite 99, id_name = ''Milk'', id_price = Finite (3 / 2),
                     id_quantity = Finite 2\<rparr>"
    by code_simp
  note t = create_status_codes
             [of sample_receipt_payload _ sample_store sample_stamp zod_email ?ann _ milk]
  from t h1 have a: "status (snd (post_api_receipts sample_store sample_receipt_payload sample_stamp)) = 201"
    by simp
  from t h2 have b: "status (snd (post_api_users zod_email sample_store ?ann sample_stamp)) = 200"
    by simp
  from t h3 have c: "status (snd (post_api_receipt_items sample_store milk sample_stamp)) = 200"
    by simp
  from h1 h2 h3 a b c show ?thesis by blast
qed

text \<open>
  C10. For a URL whose path ends in the segment \<open>seg\<close> after its last slash,
  \<^verbatim>\<open>parseProductFromUrl\<close> returns the label of \<open>seg\<close> (hyphens as spaces, the first
  character of each word capitalised) with the price \<^verbatim>\<open>"0.00"\<close>. For
  \<^verbatim>\<open>https://example.com/store/cool-blue-widget\<close> the name is \<^verbatim>\<open>Cool Blue Widget\<close>.
\<close>

theorem parseProductFromUrl_label:
  assumes "pathnameOf url = Some (pre @ CHR ''/'' # seg)" and "CHR ''/'' \<notin> set seg"
  shows "parseProductFromUrl pathnameOf url = Inr \<lparr>name = label_of_segment seg, price = ''0.00''\<rparr>
         \<and> parseProductFromUrl urlPathname ''https://example.com/store/cool-blue-widget''
             = Inr \<lparr>name = ''Cool Blue Widget'', price = ''0.00''\<rparr>"
proof
  obtain p ps where ps: "splitOn CHR ''/'' (pre @ CHR ''/'' # seg) = p # ps"
    using splitOn_not_Nil [of "CHR ''/''" "pre @ CHR ''/'' # seg"]
    by (cases "splitOn CHR ''/'' (pre @ CHR ''/'' # seg)") auto
  have "last (p # ps) = seg"
    using last_splitOn [OF assms(2), of pre] ps by simp
  then show "parseProductFromUrl pathnameOf url
               = Inr \<lparr>name = label_of_segment seg, price = ''0.00''\<rparr>"
    by (simp add: parseProductFromUrl_def assms(1) ps label_of_segment_refines del: last.simps)
next
  show "parseProductFromUrl urlPathname ''https://example.com/store/cool-blue-widget''
          = Inr \<lparr>name = ''Cool Blue Widget'', price = ''0.00''\<rparr>"
    by code_simp
qed

theorem parseProductFromUrl_label_witness:
  "urlPathname ''https://example.com/store/cool-blue-widget''
     = Some (''/store'' @ CHR ''/'' # ''cool-blue-widget'')
   \<and> CHR ''/'' \<notin> set ''cool-blue-widget''
   \<and> label_of_segment ''cool-blue-widget'' = ''Cool Blue Widget''
   \<and> parseProductFromUrl urlPathname ''https://example.com/store/cool-blue-widget''
       = Inr \<lparr>name = label_of_segment ''cool-blue-widget'', price = ''0.00''\<rparr>"
proof -
  have h1: "urlPathname ''https://example.com/store/cool-blue-widget''
              = Some (''/store'' @ CHR ''/'' # ''cool-blue-widget'')"
    by code_simp
  have h2: "CHR ''/'' \<notin> set ''cool-blue-widget''" by simp
  have h3: "label_of_segment ''cool-blue-widget'' = ''Cool Blue Widget''" by code_simp
  from parseProductFromUrl_label
         [of urlPathname "''https://example.com/store/cool-blue-widget''" "''/store''"
             "''cool-blue-widget''", OF h1 h2]
    h1 h2 h3
  show ?thesis by blast
qed

end
